theory Spec2Isabelle
  imports Complex_Main
begin

section \<open>CurveTool: the curve editing component of the image editor\<close>

text \<open>
  A shallow embedding of \<^verbatim>\<open>src/components/image-editor/CurveTool.tsx\<close>.

  The component keeps six pieces of React state; its event handlers read the state of the
  current render and queue updates, which the next render shows. A handler is modelled as
  a function from the state of the render it closes over to the state of the next render.

  Numbers: a coordinate is a finite JavaScript number, which is a rational; it is the
  \<^typ>\<open>real\<close> of that value. Where the code only passes a computed number on (the
  pointer position, the control points of the spline) the arithmetic is exact here.
  Where the code branches on a computed number (\<^verbatim>\<open>isNear\<close>) every operation rounds
  as binary64 does, to the nearest value with ties to even, with gradual underflow and
  with overflow to infinity.

  Arrays: \<^verbatim>\<open>Point[]\<close> is a list of points. A read outside the list gives
  \<^verbatim>\<open>undefined\<close> in JavaScript; it is \<open>None\<close> in \<open>js_nth\<close>. Reading a property of
  \<^verbatim>\<open>undefined\<close> throws a \<^verbatim>\<open>TypeError\<close>, which is a value of the handlers'
  result type.
\<close>

subsection \<open>Data\<close>

record point =
  x :: real
  y :: real

type_synonym curve = "point list"

text \<open>
  The six \<^verbatim>\<open>useState\<close> cells (lines 28 to 33). \<open>None\<close> is \<^verbatim>\<open>null\<close>. The two
  indices are natural numbers: the code sets them only from a loop counter (line 144)
  and from a result of \<^verbatim>\<open>findIndex\<close> other than \<open>-1\<close> (line 155).
\<close>

record state =
  curves :: "curve list"
  currentCurve :: curve
  selectedCurveIndex :: "nat option"
  dragging :: "nat option"
  mousePos :: "point option"
  drawing :: bool

text \<open>
  The canvas behind \<^verbatim>\<open>canvasRef.current\<close> (\<open>None\<close> when the ref is \<^verbatim>\<open>null\<close>):
  the left and top of its bounding client rectangle, its size, and whether
  \<^verbatim>\<open>getContext("2d")\<close> gives a context.
\<close>

record canvas =
  rect_left :: real
  rect_top :: real
  width :: real
  height :: real
  has_ctx :: bool

record mouse_event =
  clientX :: real
  clientY :: real

text \<open>The properties of the component that the code reads (lines 9 to 17).\<close>

record props =
  active :: bool
  currentColor :: string
  strokeStyle :: string
  brushSize :: real
  has_onFinishCurve :: bool

datatype js_error = TypeError

text \<open>
  How the processing of an event ends.
  \<^item> \<open>Returns s\<close>: the handler returned and the next render has state \<open>s\<close>.
  \<^item> \<open>Throws e\<close>: the handler itself threw, before it queued any update.
  \<^item> \<open>RenderThrows e\<close>: the handler returned, and the function it passed to a setter
    threw when React applied it, so no next state is rendered.
  \<^item> \<open>Sparse s c slots\<close>: the handler returned, and the next render has state \<open>s\<close> except
    that committed curve \<open>c\<close> is now the array \<open>slots\<close>, which has empty slots (\<open>None\<close>)
    and so is no list of points any more. \<^verbatim>\<open>draw\<close> then reads an empty slot as a point
    and throws, see \<open>draw_path_sparse\<close>.
\<close>

datatype outcome =
  Returns state
| Throws js_error
| RenderThrows js_error
| Sparse state nat "point option list"

text \<open>The calls on the 2D context that the code makes, in order.\<close>

datatype ctx_call =
  ClearRect real real real real
| BeginPath
| MoveTo real real
| LineTo real real
| BezierCurveTo real real real real real real
| Arc real real real real real
| SetStrokeStyle string
| SetFillStyle string
| SetLineWidth real
| SetLineDash "real list"
| Stroke
| Fill

text \<open>The calls of the callbacks in the properties.\<close>

datatype callback =
  SetActiveTool_null
| OnFinishCurve curve

subsection \<open>JavaScript array operations the code uses\<close>

text \<open>\<^verbatim>\<open>a[i]\<close> for any integer \<open>i\<close>: \<^verbatim>\<open>undefined\<close> outside the array.\<close>

definition js_nth :: "'a list \<Rightarrow> int \<Rightarrow> 'a option" where
  "js_nth a i = (if 0 \<le> i \<and> i < int (length a) then Some (a ! nat i) else None)"

text \<open>\<^verbatim>\<open>u || d\<close> where \<open>u\<close> is an object or \<^verbatim>\<open>undefined\<close>: an object is truthy.\<close>

fun js_or :: "'a option \<Rightarrow> 'a \<Rightarrow> 'a" where
  "js_or (Some p) d = p"
| "js_or None d = d"

text \<open>\<^verbatim>\<open>Array.prototype.some\<close> on a list.\<close>

fun array_some :: "('a \<Rightarrow> bool) \<Rightarrow> 'a list \<Rightarrow> bool" where
  "array_some f [] = False"
| "array_some f (v # vs) = (if f v then True else array_some f vs)"

text \<open>
  \<^verbatim>\<open>Array.prototype.findIndex\<close>: the index of the first element that satisfies the
  callback, \<open>-1\<close> when there is none. \<open>findIndex_from f a k\<close> scans \<open>a\<close>, whose first
  element has index \<open>k\<close>.
\<close>

fun findIndex_from :: "('a \<Rightarrow> bool) \<Rightarrow> 'a list \<Rightarrow> int \<Rightarrow> int" where
  "findIndex_from f [] k = - 1"
| "findIndex_from f (v # vs) k = (if f v then k else findIndex_from f vs (k + 1))"

definition findIndex :: "('a \<Rightarrow> bool) \<Rightarrow> 'a list \<Rightarrow> int" where
  "findIndex f a = findIndex_from f a 0"

text \<open>
  \<^verbatim>\<open>a[k] = v\<close> on a fresh copy of a list: the slots of the array afterwards. Inside the
  array it replaces the element; at \<open>k = length a\<close> it appends; beyond, JavaScript extends
  the array and leaves the slots between empty.
\<close>

definition array_assign :: "'a list \<Rightarrow> nat \<Rightarrow> 'a \<Rightarrow> 'a option list" where
  "array_assign a k v =
     (if k < length a then map Some (a[k := v])
      else map Some a @ replicate (k - length a) None @ [Some v])"

subsection \<open>Binary64 arithmetic\<close>

text \<open>\<open>2\<close> to an integer power.\<close>

definition pow2 :: "int \<Rightarrow> real" where
  "pow2 e = (if 0 \<le> e then 2 ^ nat e else 1 / 2 ^ nat (- e))"

text \<open>The nearest integer; of two nearest integers the even one.\<close>

definition round_even :: "real \<Rightarrow> int" where
  "round_even r =
     (let f = \<lfloor>r\<rfloor> in
      if r - of_int f < 1 / 2 then f
      else if 1 / 2 < r - of_int f then f + 1
      else if even f then f else f + 1)"

text \<open>
  The binary exponent at which a value is rounded: the least \<open>e\<close> from \<open>-1022\<close> on with
  \<open>\<bar>r\<bar> < 2\<^sup>e\<^sup>+\<^sup>1\<close>, and \<open>1023\<close> when there is none up to there. Below \<open>2\<^sup>-\<^sup>1\<^sup>0\<^sup>2\<^sup>2\<close> the
  exponent stays \<open>-1022\<close>: the subnormal numbers.
\<close>

fun exponent_from :: "real \<Rightarrow> int \<Rightarrow> nat \<Rightarrow> int" where
  "exponent_from a e 0 = e"
| "exponent_from a e (Suc n) = (if a < pow2 (e + 1) then e else exponent_from a (e + 1) n)"

definition exponent64 :: "real \<Rightarrow> int" where
  "exponent64 r = exponent_from \<bar>r\<bar> (- 1022) 2045"

text \<open>Rounding to 53 significant bits at that exponent.\<close>

definition round64 :: "real \<Rightarrow> real" where
  "round64 r = (let q = pow2 (exponent64 r - 52) in of_int (round_even (r / q)) * q)"

text \<open>A JavaScript number. The sign of a zero is not kept: no operation here reads it.\<close>

datatype number = Finite real | PosInfinity | NegInfinity | NaN

text \<open>The number that an exact result rounds to: infinite from \<open>2\<^sup>1\<^sup>0\<^sup>2\<^sup>4\<close> on.\<close>

definition to_number :: "real \<Rightarrow> number" where
  "to_number r =
     (let v = round64 r in
      if pow2 1024 \<le> v then PosInfinity
      else if v \<le> - pow2 1024 then NegInfinity
      else Finite v)"

text \<open>The operators \<^verbatim>\<open>-\<close>, \<^verbatim>\<open>+\<close>, \<^verbatim>\<open>*\<close> and \<^verbatim>\<open><=\<close> on numbers.\<close>

fun num_sub :: "number \<Rightarrow> number \<Rightarrow> number" where
  "num_sub (Finite a) (Finite b) = to_number (a - b)"
| "num_sub NaN _ = NaN"
| "num_sub _ NaN = NaN"
| "num_sub PosInfinity PosInfinity = NaN"
| "num_sub NegInfinity NegInfinity = NaN"
| "num_sub PosInfinity _ = PosInfinity"
| "num_sub NegInfinity _ = NegInfinity"
| "num_sub (Finite a) PosInfinity = NegInfinity"
| "num_sub (Finite a) NegInfinity = PosInfinity"

fun num_add :: "number \<Rightarrow> number \<Rightarrow> number" where
  "num_add (Finite a) (Finite b) = to_number (a + b)"
| "num_add NaN _ = NaN"
| "num_add _ NaN = NaN"
| "num_add PosInfinity NegInfinity = NaN"
| "num_add NegInfinity PosInfinity = NaN"
| "num_add PosInfinity _ = PosInfinity"
| "num_add NegInfinity _ = NegInfinity"
| "num_add (Finite a) PosInfinity = PosInfinity"
| "num_add (Finite a) NegInfinity = NegInfinity"

fun num_mul :: "number \<Rightarrow> number \<Rightarrow> number" where
  "num_mul (Finite a) (Finite b) = to_number (a * b)"
| "num_mul NaN _ = NaN"
| "num_mul _ NaN = NaN"
| "num_mul (Finite a) PosInfinity =
     (if a = 0 then NaN else if 0 < a then PosInfinity else NegInfinity)"
| "num_mul (Finite a) NegInfinity =
     (if a = 0 then NaN else if 0 < a then NegInfinity else PosInfinity)"
| "num_mul PosInfinity (Finite b) =
     (if b = 0 then NaN else if 0 < b then PosInfinity else NegInfinity)"
| "num_mul NegInfinity (Finite b) =
     (if b = 0 then NaN else if 0 < b then NegInfinity else PosInfinity)"
| "num_mul PosInfinity PosInfinity = PosInfinity"
| "num_mul NegInfinity NegInfinity = PosInfinity"
| "num_mul PosInfinity NegInfinity = NegInfinity"
| "num_mul NegInfinity PosInfinity = NegInfinity"

fun num_le :: "number \<Rightarrow> number \<Rightarrow> bool" where
  "num_le (Finite a) (Finite b) = (a \<le> b)"
| "num_le NaN _ = False"
| "num_le _ NaN = False"
| "num_le NegInfinity _ = True"
| "num_le _ PosInfinity = True"
| "num_le PosInfinity _ = False"
| "num_le (Finite a) NegInfinity = False"

subsection \<open>Geometry\<close>

text \<open>\<^verbatim>\<open>getMousePos\<close> (lines 113 to 124).\<close>

definition getMousePos :: "canvas option \<Rightarrow> mouse_event \<Rightarrow> point" where
  "getMousePos cv e =
     (case cv of
        None \<Rightarrow> \<lparr>x = 0, y = 0\<rparr>
      | Some c \<Rightarrow> \<lparr>x = clientX e - rect_left c, y = clientY e - rect_top c\<rparr>)"

text \<open>
  \<^verbatim>\<open>isNear\<close> (lines 126 to 130); the default of \<open>distance\<close> is 10. Each of the seven
  operations gives a number.
\<close>

definition isNear :: "point \<Rightarrow> point \<Rightarrow> real \<Rightarrow> bool" where
  "isNear pt1 pt2 distance =
     (let dx = num_sub (Finite (x pt1)) (Finite (x pt2));
          dy = num_sub (Finite (y pt1)) (Finite (y pt2))
      in num_le (num_add (num_mul dx dx) (num_mul dy dy))
           (num_mul (Finite distance) (Finite distance)))"

text \<open>
  One pass of the loop body of lines 54 to 64, for an index \<open>i\<close> with
  \<open>i + 1 < length curve\<close> (the loop's condition), so that \<open>curve[i]\<close> and \<open>curve[i + 1]\<close>
  are points.
\<close>

definition draw_segment :: "curve \<Rightarrow> nat \<Rightarrow> ctx_call" where
  "draw_segment curve i =
     (let p0 = js_or (js_nth curve (int i - 1)) (curve ! i);
          p1 = curve ! i;
          p2 = curve ! (i + 1);
          p3 = js_or (js_nth curve (int i + 2)) p2;
          cp1x = x p1 + (x p2 - x p0) / 6;
          cp1y = y p1 + (y p2 - y p0) / 6;
          cp2x = x p2 - (x p3 - x p1) / 6;
          cp2y = y p2 - (y p3 - y p1) / 6
      in BezierCurveTo cp1x cp1y cp2x cp2y (x p2) (y p2))"

text \<open>The loop of lines 53 to 65, from index \<open>i\<close> on.\<close>

function draw_spline :: "curve \<Rightarrow> nat \<Rightarrow> ctx_call list" where
  "draw_spline curve i =
     (if int i < int (length curve) - 1
      then draw_segment curve i # draw_spline curve (i + 1)
      else [])"
  by pat_completeness auto
termination
  by (relation "measure (\<lambda>(curve, i). length curve - i)") auto

declare draw_spline.simps [simp del]

text \<open>The path of one curve, lines 50 to 65; the caller has checked \<open>curve.length \<ge> 2\<close>.\<close>

definition draw_path :: "curve \<Rightarrow> ctx_call list" where
  "draw_path curve =
     BeginPath # MoveTo (x (curve ! 0)) (y (curve ! 0)) # draw_spline curve 0"

text \<open>
  The same lines on an array that may have empty slots. \<open>slot a i\<close> is \<^verbatim>\<open>a[i]\<close>, a point
  or \<^verbatim>\<open>undefined\<close>; reading \<^verbatim>\<open>x\<close> or \<^verbatim>\<open>y\<close> of \<^verbatim>\<open>undefined\<close> throws. Of a path
  that throws, the calls made before are not kept.
\<close>

definition slot :: "point option list \<Rightarrow> int \<Rightarrow> point option" where
  "slot a i = (case js_nth a i of None \<Rightarrow> None | Some v \<Rightarrow> v)"

definition draw_segment_sparse :: "point option list \<Rightarrow> nat \<Rightarrow> js_error + ctx_call" where
  "draw_segment_sparse curve i =
     (let p0 = (case slot curve (int i - 1) of Some p \<Rightarrow> Some p | None \<Rightarrow> slot curve (int i));
          p1 = slot curve (int i);
          p2 = slot curve (int i + 1);
          p3 = (case slot curve (int i + 2) of Some p \<Rightarrow> Some p | None \<Rightarrow> p2)
      in case (p0, p1, p2, p3) of
           (Some q0, Some q1, Some q2, Some q3) \<Rightarrow>
             Inr (BezierCurveTo (x q1 + (x q2 - x q0) / 6) (y q1 + (y q2 - y q0) / 6)
                    (x q2 - (x q3 - x q1) / 6) (y q2 - (y q3 - y q1) / 6) (x q2) (y q2))
         | _ \<Rightarrow> Inl TypeError)"

function draw_spline_sparse :: "point option list \<Rightarrow> nat \<Rightarrow> js_error + ctx_call list" where
  "draw_spline_sparse curve i =
     (if int i < int (length curve) - 1 then
        (case draw_segment_sparse curve i of
           Inl err \<Rightarrow> Inl err
         | Inr call \<Rightarrow>
             (case draw_spline_sparse curve (i + 1) of
                Inl err \<Rightarrow> Inl err
              | Inr calls \<Rightarrow> Inr (call # calls)))
      else Inr [])"
  by pat_completeness auto
termination
  by (relation "measure (\<lambda>(curve, i). length curve - i)") auto

declare draw_spline_sparse.simps [simp del]

definition draw_path_sparse :: "point option list \<Rightarrow> js_error + ctx_call list" where
  "draw_path_sparse curve =
     (case slot curve 0 of
        None \<Rightarrow> Inl TypeError
      | Some p \<Rightarrow>
          (case draw_spline_sparse curve 0 of
             Inl err \<Rightarrow> Inl err
           | Inr calls \<Rightarrow> Inr (BeginPath # MoveTo (x p) (y p) # calls)))"

subsection \<open>The renderer: \<^verbatim>\<open>draw\<close> (lines 35 to 111)\<close>

text \<open>The \<^verbatim>\<open>switch\<close> on the stroke style of lines 71 to 84.\<close>

definition draw_style :: "props \<Rightarrow> ctx_call list" where
  "draw_style pr =
     (if strokeStyle pr = ''dashed'' then [SetLineDash [brushSize pr * 3, brushSize pr * 2]]
      else if strokeStyle pr = ''dotted'' then [SetLineDash [brushSize pr, brushSize pr]]
      else if strokeStyle pr = ''double'' then [SetLineDash [], SetLineWidth (brushSize pr / 2)]
      else [SetLineDash []])"

text \<open>The marker of one point of the selected curve, lines 92 to 95.\<close>

definition draw_marker :: "props \<Rightarrow> point \<Rightarrow> ctx_call list" where
  "draw_marker pr pt =
     [BeginPath, Arc (x pt) (y pt) 5 0 (2 * pi), SetFillStyle (currentColor pr), Fill]"

text \<open>The callback of \<^verbatim>\<open>allCurves.forEach\<close>, lines 47 to 98.\<close>

definition draw_curve :: "props \<Rightarrow> state \<Rightarrow> curve \<Rightarrow> nat \<Rightarrow> ctx_call list" where
  "draw_curve pr s curve idx =
     (if length curve < 2 then []
      else draw_path curve
        @ [SetStrokeStyle (currentColor pr), SetLineWidth (brushSize pr)]
        @ draw_style pr
        @ [Stroke, SetLineDash []]
        @ (if selectedCurveIndex s = Some idx then concat (map (draw_marker pr) curve)
           else []))"

text \<open>
  The guide segment from the last placed point to the pointer, lines 100 to 110. It reads
  the one \<^verbatim>\<open>mousePos\<close> cell of the state.
\<close>

definition draw_preview :: "props \<Rightarrow> state \<Rightarrow> ctx_call list" where
  "draw_preview pr s =
     (case mousePos s of
        None \<Rightarrow> []
      | Some m \<Rightarrow>
          if drawing s \<and> length (currentCurve s) > 0 then
            (let lastPoint = currentCurve s ! (length (currentCurve s) - 1)
             in [BeginPath, MoveTo (x lastPoint) (y lastPoint), LineTo (x m) (y m),
                 SetStrokeStyle ''#aaa'', SetLineDash [brushSize pr, brushSize pr],
                 SetLineWidth (brushSize pr), Stroke, SetLineDash []])
          else [])"

definition draw :: "canvas option \<Rightarrow> props \<Rightarrow> state \<Rightarrow> ctx_call list" where
  "draw cv pr s =
     (case cv of
        None \<Rightarrow> []
      | Some c \<Rightarrow>
          if \<not> has_ctx c then []
          else
            (let allCurves =
                   curves s @ (if drawing s \<and> length (currentCurve s) > 1
                               then [currentCurve s] else [])
             in ClearRect 0 0 (width c) (height c)
                # concat (map (\<lambda>(curve, idx). draw_curve pr s curve idx)
                           (zip allCurves [0 ..< length allCurves]))
                @ draw_preview pr s))"

subsection \<open>The handlers (lines 132 to 262)\<close>

text \<open>
  The loop of lines 142 to 147 from index \<open>i\<close> on: the index the loop passes to
  \<^verbatim>\<open>setDragging\<close> before it returns, \<open>None\<close> when the loop ends without a hit.
\<close>

function point_hit :: "curve \<Rightarrow> point \<Rightarrow> nat \<Rightarrow> nat option" where
  "point_hit curve pos i =
     (if i < length curve
      then (if isNear pos (curve ! i) 10 then Some i else point_hit curve pos (i + 1))
      else None)"
  by pat_completeness auto
termination
  by (relation "measure (\<lambda>(curve, pos, i). length curve - i)") auto

declare point_hit.simps [simp del]

text \<open>The curve-level hit test, lines 150 to 152.\<close>

definition hitIndex :: "curve list \<Rightarrow> point \<Rightarrow> int" where
  "hitIndex cs pos = findIndex (\<lambda>curve. array_some (\<lambda>pt. isNear pt pos 8) curve) cs"

text \<open>Lines 150 to 161: select the curve that was hit, or start a new curve.\<close>

definition select_or_start :: "state \<Rightarrow> point \<Rightarrow> state" where
  "select_or_start s pos =
     (if hitIndex (curves s) pos \<noteq> - 1
      then s\<lparr>selectedCurveIndex := Some (nat (hitIndex (curves s) pos))\<rparr>
      else s\<lparr>currentCurve := [pos], drawing := True\<rparr>)"

text \<open>
  \<^verbatim>\<open>handleMouseDown\<close>, lines 132 to 162. With a selection that names no committed
  curve, \<^verbatim>\<open>curves[selectedCurveIndex]\<close> is \<^verbatim>\<open>undefined\<close> and reading its
  \<^verbatim>\<open>length\<close> throws.
\<close>

definition handleMouseDown :: "canvas option \<Rightarrow> state \<Rightarrow> mouse_event \<Rightarrow> outcome" where
  "handleMouseDown cv s e =
     (let pos = getMousePos cv e in
      if drawing s then Returns (s\<lparr>currentCurve := currentCurve s @ [pos]\<rparr>)
      else
        (case selectedCurveIndex s of
           None \<Rightarrow> Returns (select_or_start s pos)
         | Some c \<Rightarrow>
             (case js_nth (curves s) (int c) of
                None \<Rightarrow> Throws TypeError
              | Some curve \<Rightarrow>
                  (case point_hit curve pos 0 of
                     Some i \<Rightarrow> Returns (s\<lparr>dragging := Some i\<rparr>)
                   | None \<Rightarrow> Returns (select_or_start s pos)))))"

text \<open>
  \<^verbatim>\<open>handleMouseMove\<close>, lines 164 to 177, with the function it passes to
  \<^verbatim>\<open>setCurves\<close> applied to the committed curves of the state. The handler itself never
  throws. With a selection that names no committed curve, spreading
  \<^verbatim>\<open>newCurves[selectedCurveIndex]\<close> throws inside that function, when React applies
  it. The assignment \<^verbatim>\<open>updatedCurve[dragging] = pos\<close> replaces a point inside the
  curve, appends at its end, and beyond the end leaves empty slots.
\<close>

definition handleMouseMove :: "canvas option \<Rightarrow> state \<Rightarrow> mouse_event \<Rightarrow> outcome" where
  "handleMouseMove cv s e =
     (let pos = getMousePos cv e in
      case dragging s of
        None \<Rightarrow> Returns (s\<lparr>mousePos := Some pos\<rparr>)
      | Some k \<Rightarrow>
          (case selectedCurveIndex s of
             None \<Rightarrow> Returns (s\<lparr>mousePos := Some pos\<rparr>)
           | Some c \<Rightarrow>
               (case js_nth (curves s) (int c) of
                  None \<Rightarrow> RenderThrows TypeError
                | Some curve \<Rightarrow>
                    if k < length curve then
                      Returns (s\<lparr>mousePos := Some pos,
                                 curves := (curves s)[c := curve[k := pos]]\<rparr>)
                    else if k = length curve then
                      Returns (s\<lparr>mousePos := Some pos,
                                 curves := (curves s)[c := curve @ [pos]]\<rparr>)
                    else Sparse (s\<lparr>mousePos := Some pos\<rparr>) c (array_assign curve k pos))))"

text \<open>\<^verbatim>\<open>handleMouseUp\<close>, lines 179 to 182.\<close>

definition handleMouseUp :: "state \<Rightarrow> state" where
  "handleMouseUp s = s\<lparr>dragging := None, mousePos := None\<rparr>"

text \<open>
  \<^verbatim>\<open>handleKeyDown\<close>, lines 184 to 262, in three parts: the state it sets (lines 196 to
  201), the calls it makes on the canvas (lines 187 to 193 and 204 to 256) and the
  callbacks it calls (lines 200 and 258 to 260).
\<close>

definition commits :: "state \<Rightarrow> string \<Rightarrow> bool" where
  "commits s key \<longleftrightarrow> key = ''Enter'' \<and> drawing s \<and> length (currentCurve s) > 1"

definition handleKeyDown :: "state \<Rightarrow> string \<Rightarrow> state" where
  "handleKeyDown s key =
     (if commits s key
      then s\<lparr>curves := curves s @ [currentCurve s],
             currentCurve := [],
             mousePos := None,
             drawing := False,
             selectedCurveIndex := None\<rparr>
      else s)"

text \<open>The second copy of the spline loop, lines 218 to 230, with its body.\<close>

definition finalize_segment :: "curve \<Rightarrow> nat \<Rightarrow> ctx_call" where
  "finalize_segment curve i =
     (let p0 = js_or (js_nth curve (int i - 1)) (curve ! i);
          p1 = curve ! i;
          p2 = curve ! (i + 1);
          p3 = js_or (js_nth curve (int i + 2)) p2;
          cp1x = x p1 + (x p2 - x p0) / 6;
          cp1y = y p1 + (y p2 - y p0) / 6;
          cp2x = x p2 - (x p3 - x p1) / 6;
          cp2y = y p2 - (y p3 - y p1) / 6
      in BezierCurveTo cp1x cp1y cp2x cp2y (x p2) (y p2))"

function finalize_spline :: "curve \<Rightarrow> nat \<Rightarrow> ctx_call list" where
  "finalize_spline curve i =
     (if int i < int (length curve) - 1
      then finalize_segment curve i # finalize_spline curve (i + 1)
      else [])"
  by pat_completeness auto
termination
  by (relation "measure (\<lambda>(curve, i). length curve - i)") auto

declare finalize_spline.simps [simp del]

definition finalize_path :: "curve \<Rightarrow> ctx_call list" where
  "finalize_path curve =
     BeginPath # MoveTo (x (curve ! 0)) (y (curve ! 0)) # finalize_spline curve 0"

text \<open>The \<^verbatim>\<open>switch\<close> of lines 236 to 252.\<close>

definition finalize_style :: "props \<Rightarrow> ctx_call list" where
  "finalize_style pr =
     (if strokeStyle pr = ''dashed''
        then [SetLineDash [brushSize pr * 3, brushSize pr * 2], SetLineWidth (brushSize pr)]
      else if strokeStyle pr = ''dotted''
        then [SetLineDash [brushSize pr, brushSize pr], SetLineWidth (brushSize pr)]
      else if strokeStyle pr = ''double''
        then [SetLineDash [], SetLineWidth (brushSize pr / 2)]
      else [SetLineDash [], SetLineWidth (brushSize pr)])"

text \<open>The callback of \<^verbatim>\<open>allCurves.forEach\<close> in the handler, lines 209 to 256.\<close>

definition finalize_curve :: "canvas option \<Rightarrow> props \<Rightarrow> curve \<Rightarrow> ctx_call list" where
  "finalize_curve cv pr curve =
     (if length curve < 2 then []
      else
        (case cv of
           None \<Rightarrow> []
         | Some c \<Rightarrow>
             if \<not> has_ctx c then []
             else finalize_path curve
               @ [SetStrokeStyle (currentColor pr), SetLineWidth (brushSize pr)]
               @ finalize_style pr
               @ [Stroke, SetLineDash []]))"

definition handleKeyDown_canvas ::
  "canvas option \<Rightarrow> props \<Rightarrow> state \<Rightarrow> string \<Rightarrow> ctx_call list" where
  "handleKeyDown_canvas cv pr s key =
     (if commits s key then
        (case cv of
           None \<Rightarrow> []
         | Some c \<Rightarrow> if has_ctx c then [ClearRect 0 0 (width c) (height c)] else [])
        @ (let allCurves =
                 (curves s @ [currentCurve s])
                 @ (if length (currentCurve s) > 1 then [currentCurve s] else [])
           in concat (map (finalize_curve cv pr) allCurves))
      else [])"

definition handleKeyDown_callbacks :: "props \<Rightarrow> state \<Rightarrow> string \<Rightarrow> callback list" where
  "handleKeyDown_callbacks pr s key =
     (if commits s key
      then SetActiveTool_null
           # (if has_onFinishCurve pr then [OnFinishCurve (currentCurve s)] else [])
      else [])"

subsection \<open>The component: initial state and subscriptions\<close>

text \<open>The initial values of the state cells, lines 28 to 33.\<close>

definition initial :: "props \<Rightarrow> state" where
  "initial pr =
     \<lparr>curves = [], currentCurve = [], selectedCurveIndex = None, dragging = None,
      mousePos = None, drawing = active pr\<rparr>"

datatype event =
  MouseDown mouse_event
| MouseMove mouse_event
| MouseUp
| KeyDown string

text \<open>
  The effect of lines 266 to 283 runs after every render in which one of \<^verbatim>\<open>drawing\<close>,
  \<^verbatim>\<open>currentCurve\<close>, \<^verbatim>\<open>curves\<close>, \<^verbatim>\<open>dragging\<close>, \<^verbatim>\<open>selectedCurveIndex\<close> changed,
  after the cleanup of the previous run has removed the listeners. It returns before
  adding any listener when \<^verbatim>\<open>drawing\<close> is false or there is no canvas; otherwise it
  adds all four. So the listeners present in a render are:
\<close>

definition subscribed :: "canvas option \<Rightarrow> state \<Rightarrow> bool" where
  "subscribed cv s = (if \<not> drawing s then False else if cv = None then False else True)"

text \<open>The handler that each kind of event is bound to, lines 272 to 275.\<close>

definition handle :: "canvas option \<Rightarrow> state \<Rightarrow> event \<Rightarrow> outcome" where
  "handle cv s ev =
     (case ev of
        MouseDown e \<Rightarrow> handleMouseDown cv s e
      | MouseMove e \<Rightarrow> handleMouseMove cv s e
      | MouseUp \<Rightarrow> Returns (handleMouseUp s)
      | KeyDown key \<Rightarrow> Returns (handleKeyDown s key))"

text \<open>An event that arrives in a render reaches its handler only through a listener.\<close>

definition dispatch :: "canvas option \<Rightarrow> state \<Rightarrow> event \<Rightarrow> outcome" where
  "dispatch cv s ev = (if subscribed cv s then handle cv s ev else Returns s)"

text \<open>
  Events in arrival order, each in the render that the one before produced. The run ends
  at the first event whose processing throws or leaves an array with empty slots.
\<close>

fun run :: "canvas option \<Rightarrow> state \<Rightarrow> event list \<Rightarrow> outcome" where
  "run cv s [] = Returns s"
| "run cv s (ev # evs) =
     (case dispatch cv s ev of
        Returns s' \<Rightarrow> run cv s' evs
      | Throws err \<Rightarrow> Throws err
      | RenderThrows err \<Rightarrow> RenderThrows err
      | Sparse s' c slots \<Rightarrow> Sparse s' c slots)"

subsection \<open>Example states\<close>

text \<open>Drawing, with two points placed at \<open>(10, 10)\<close> and \<open>(50, 10)\<close>.\<close>

definition scenario_A :: state where
  "scenario_A =
     \<lparr>curves = [], currentCurve = [\<lparr>x = 10, y = 10\<rparr>, \<lparr>x = 50, y = 10\<rparr>],
      selectedCurveIndex = None, dragging = None, mousePos = None, drawing = True\<rparr>"

text \<open>Drawing, with one point placed.\<close>

definition scenario_D :: state where
  "scenario_D =
     \<lparr>curves = [], currentCurve = [\<lparr>x = 10, y = 10\<rparr>],
      selectedCurveIndex = None, dragging = None, mousePos = None, drawing = True\<rparr>"

text \<open>
  One committed curve \<open>[(0, 0), (10, 0), (20, 0)]\<close>, not drawing: with nothing selected,
  with the curve selected, and with its point 1 being dragged.
\<close>

definition scenario_B :: state where
  "scenario_B =
     \<lparr>curves = [[\<lparr>x = 0, y = 0\<rparr>, \<lparr>x = 10, y = 0\<rparr>, \<lparr>x = 20, y = 0\<rparr>]], currentCurve = [],
      selectedCurveIndex = None, dragging = None, mousePos = None, drawing = False\<rparr>"

definition scenario_C :: state where
  "scenario_C = scenario_B\<lparr>selectedCurveIndex := Some 0\<rparr>"

definition scenario_C_drag :: state where
  "scenario_C_drag = scenario_B\<lparr>selectedCurveIndex := Some 0, dragging := Some 1\<rparr>"

text \<open>A selection and a drag index that name nothing: there is no committed curve.\<close>

definition stale_selection :: state where
  "stale_selection =
     \<lparr>curves = [], currentCurve = [],
      selectedCurveIndex = Some 0, dragging = Some 0, mousePos = None, drawing = False\<rparr>"

text \<open>Drawing with two points placed, while a curve is selected and a drag index is set.\<close>

definition commit_while_dragging :: state where
  "commit_while_dragging =
     \<lparr>curves = [[\<lparr>x = 0, y = 0\<rparr>, \<lparr>x = 10, y = 0\<rparr>, \<lparr>x = 20, y = 0\<rparr>]],
      currentCurve = [\<lparr>x = 10, y = 50\<rparr>, \<lparr>x = 50, y = 50\<rparr>],
      selectedCurveIndex = Some 0, dragging = Some 1, mousePos = None, drawing = True\<rparr>"

text \<open>Drawing with one point placed and the pointer at \<open>(30, 30)\<close>.\<close>

definition preview_state :: state where
  "preview_state =
     \<lparr>curves = [], currentCurve = [\<lparr>x = 10, y = 10\<rparr>],
      selectedCurveIndex = None, dragging = None, mousePos = Some \<lparr>x = 30, y = 30\<rparr>,
      drawing = True\<rparr>"


definition example_canvas :: canvas where
  "example_canvas = \<lparr>rect_left = 0, rect_top = 0, width = 300, height = 150, has_ctx = True\<rparr>"

definition example_props :: props where
  "example_props =
     \<lparr>active = True, currentColor = ''#000'', strokeStyle = ''solid'', brushSize = 2,
      has_onFinishCurve = True\<rparr>"

section \<open>Properties\<close>

subsection \<open>Array reads and the two loops\<close>

lemma js_or_nth_prev:
  "i < length a \<Longrightarrow>
   js_or (js_nth a (int i - 1)) (a ! i) = (if i = 0 then a ! i else a ! (i - 1))"
  by (auto simp: js_nth_def nat_diff_distrib')

lemma js_or_nth_next2:
  "js_or (js_nth a (int i + 2)) d = (if i + 2 < length a then a ! (i + 2) else d)"
  by (auto simp: js_nth_def nat_add_distrib)

lemma draw_spline_map:
  "draw_spline curve i = map (draw_segment curve) [i ..< length curve - 1]"
proof (induction curve i rule: draw_spline.induct)
  case (1 curve i)
  show ?case
  proof (cases "int i < int (length curve) - 1")
    case True
    then have "i < length curve - 1" by linarith
    then have "[i ..< length curve - 1] = i # [i + 1 ..< length curve - 1]"
      by (simp add: upt_conv_Cons)
    with True 1 show ?thesis
      by (subst draw_spline.simps) simp
  next
    case False
    then have "\<not> i < length curve - 1" by linarith
    with False show ?thesis
      by (subst draw_spline.simps) simp
  qed
qed

lemma finalize_spline_draw_spline: "finalize_spline curve i = draw_spline curve i"
proof (induction curve i rule: draw_spline.induct)
  case (1 curve i)
  have seg: "finalize_segment curve i = draw_segment curve i"
    by (simp add: finalize_segment_def draw_segment_def)
  show ?case using 1
    by (subst finalize_spline.simps, subst draw_spline.simps) (simp add: seg)
qed

lemma draw_segment_clamped:
  assumes "i < length P - 1"
  shows "draw_segment P i =
      (let p0 = (if i = 0 then P ! i else P ! (i - 1));
           p1 = P ! i;
           p2 = P ! (i + 1);
           p3 = (if i + 2 < length P then P ! (i + 2) else P ! (i + 1))
       in BezierCurveTo (x p1 + (x p2 - x p0) / 6) (y p1 + (y p2 - y p0) / 6)
                        (x p2 - (x p3 - x p1) / 6) (y p2 - (y p3 - y p1) / 6)
                        (x p2) (y p2))"
proof -
  from assms have "i < length P" by simp
  then show ?thesis
    by (simp add: draw_segment_def js_or_nth_prev js_or_nth_next2 Let_def)
qed

lemma draw_path_segments:
  "draw_path P = BeginPath # MoveTo (x (P ! 0)) (y (P ! 0)) #
      map (draw_segment P) [0 ..< length P - 1]"
  by (simp add: draw_path_def draw_spline_map)

subsection \<open>Committing the active curve\<close>

text \<open>
  C1. In every state that is drawing and whose active curve has at least two points, the
  Enter key gives a state whose committed curves are the old ones followed by one more
  curve, which is the active curve of before with its points in the same order; the
  active curve is empty, the component is no longer drawing and nothing is selected.
  With a canvas, the key reaches the handler through its listener.
\<close>

theorem commit_appends_active_curve:
  assumes "drawing s" and "2 \<le> length (currentCurve s)"
  shows "curves (handleKeyDown s ''Enter'') = curves s @ [currentCurve s]
    \<and> length (curves (handleKeyDown s ''Enter'')) = length (curves s) + 1
    \<and> last (curves (handleKeyDown s ''Enter'')) = currentCurve s
    \<and> currentCurve (handleKeyDown s ''Enter'') = []
    \<and> \<not> drawing (handleKeyDown s ''Enter'')
    \<and> selectedCurveIndex (handleKeyDown s ''Enter'') = None
    \<and> dispatch (Some c) s (KeyDown ''Enter'') = Returns (handleKeyDown s ''Enter'')"
  using assms
  by (simp add: handleKeyDown_def commits_def dispatch_def subscribed_def handle_def)

theorem commit_appends_active_curve_witness:
  "drawing scenario_A \<and> 2 \<le> length (currentCurve scenario_A)
   \<and> curves (handleKeyDown scenario_A ''Enter'') = [[\<lparr>x = 10, y = 10\<rparr>, \<lparr>x = 50, y = 10\<rparr>]]
   \<and> length (curves (handleKeyDown scenario_A ''Enter'')) = length (curves scenario_A) + 1
   \<and> currentCurve (handleKeyDown scenario_A ''Enter'') = []
   \<and> \<not> drawing (handleKeyDown scenario_A ''Enter'')
   \<and> selectedCurveIndex (handleKeyDown scenario_A ''Enter'') = None
   \<and> dispatch (Some example_canvas) scenario_A (KeyDown ''Enter'')
       = Returns (handleKeyDown scenario_A ''Enter'')"
  using commit_appends_active_curve [of scenario_A example_canvas]
  by (simp add: scenario_A_def)

text \<open>
  C5. In every state that is drawing and whose active curve has no point or one point, the
  Enter key changes nothing: the committed curves and the active curve stay as they are,
  the component is still drawing, and no callback is called.
\<close>

theorem commit_refused_below_two_points:
  assumes "drawing s" and "length (currentCurve s) \<le> 1"
  shows "handleKeyDown s ''Enter'' = s
    \<and> curves (handleKeyDown s ''Enter'') = curves s
    \<and> currentCurve (handleKeyDown s ''Enter'') = currentCurve s
    \<and> drawing (handleKeyDown s ''Enter'')
    \<and> handleKeyDown_callbacks pr s ''Enter'' = []
    \<and> dispatch cv s (KeyDown ''Enter'') = Returns s"
  using assms
  by (simp add: handleKeyDown_def handleKeyDown_callbacks_def commits_def dispatch_def
      handle_def)

theorem commit_refused_below_two_points_witness:
  "drawing scenario_D \<and> length (currentCurve scenario_D) \<le> 1
   \<and> handleKeyDown scenario_D ''Enter'' = scenario_D
   \<and> currentCurve (handleKeyDown scenario_D ''Enter'') = [\<lparr>x = 10, y = 10\<rparr>]
   \<and> drawing (handleKeyDown scenario_D ''Enter'')
   \<and> dispatch (Some example_canvas) scenario_D (KeyDown ''Enter'') = Returns scenario_D"
  using commit_refused_below_two_points [of scenario_D _ "Some example_canvas"]
  by (simp add: scenario_D_def)

subsection \<open>The spline\<close>

text \<open>
  C2. For every sequence \<open>P\<close> of at least two points, the path that \<^verbatim>\<open>draw\<close> builds
  starts at \<open>P[0]\<close> and has one cubic segment for each \<open>i\<close> from \<open>0\<close> to \<open>n - 2\<close>, which
  ends at \<open>P[i + 1]\<close>, with the control points \<open>p1 + (p2 - p0) / 6\<close> and
  \<open>p2 - (p3 - p1) / 6\<close>, where \<open>p1 = P[i]\<close>, \<open>p2 = P[i + 1]\<close>, \<open>p0\<close> is \<open>P[i - 1]\<close> or, for
  \<open>i = 0\<close>, \<open>P[i]\<close>, and \<open>p3\<close> is \<open>P[i + 2]\<close> or, when that is outside the sequence,
  \<open>P[i + 1]\<close>. The last segment ends at \<open>P[n - 1]\<close>.
\<close>

theorem spline_path_shape:
  assumes "2 \<le> length P"
  shows "draw_path P =
      BeginPath # MoveTo (x (P ! 0)) (y (P ! 0)) #
      map (\<lambda>i.
          let p0 = (if i = 0 then P ! i else P ! (i - 1));
              p1 = P ! i;
              p2 = P ! (i + 1);
              p3 = (if i + 2 < length P then P ! (i + 2) else P ! (i + 1))
          in BezierCurveTo (x p1 + (x p2 - x p0) / 6) (y p1 + (y p2 - y p0) / 6)
                           (x p2 - (x p3 - x p1) / 6) (y p2 - (y p3 - y p1) / 6)
                           (x p2) (y p2))
        [0 ..< length P - 1]
    \<and> (\<exists>a b c d. last (draw_path P) =
          BezierCurveTo a b c d (x (P ! (length P - 1))) (y (P ! (length P - 1))))"
proof
  show "draw_path P =
      BeginPath # MoveTo (x (P ! 0)) (y (P ! 0)) #
      map (\<lambda>i.
          let p0 = (if i = 0 then P ! i else P ! (i - 1));
              p1 = P ! i;
              p2 = P ! (i + 1);
              p3 = (if i + 2 < length P then P ! (i + 2) else P ! (i + 1))
          in BezierCurveTo (x p1 + (x p2 - x p0) / 6) (y p1 + (y p2 - y p0) / 6)
                           (x p2 - (x p3 - x p1) / 6) (y p2 - (y p3 - y p1) / 6)
                           (x p2) (y p2))
        [0 ..< length P - 1]"
    unfolding draw_path_segments
    by (simp only: list.inject simp_thms, rule map_cong)
      (simp_all only: draw_segment_clamped atLeastLessThan_iff set_upt)
next
  from assms obtain n where n: "length P - 1 = Suc n"
    by (cases "length P - 1") auto
  have upt: "[0 ..< length P - 1] = [0 ..< n] @ [n]"
    unfolding n by simp
  have "last (draw_path P) = draw_segment P n"
    unfolding draw_path_segments upt by simp
  moreover have "Suc n = length P - 1" using n by simp
  ultimately show "\<exists>a b c d. last (draw_path P) =
          BezierCurveTo a b c d (x (P ! (length P - 1))) (y (P ! (length P - 1)))"
    by (simp add: draw_segment_def Let_def)
qed

theorem spline_path_shape_witness:
  "2 \<le> length [\<lparr>x = 10, y = 10\<rparr>, \<lparr>x = 50, y = 10\<rparr>, \<lparr>x = 90, y = 40\<rparr>]
   \<and> draw_path [\<lparr>x = 10, y = 10\<rparr>, \<lparr>x = 50, y = 10\<rparr>, \<lparr>x = 90, y = 40\<rparr>] =
       [BeginPath, MoveTo 10 10, BezierCurveTo (50 / 3) 10 (110 / 3) 5 50 10,
        BezierCurveTo (190 / 3) 15 (250 / 3) 35 90 40]"
  using spline_path_shape [of "[\<lparr>x = 10, y = 10\<rparr>, \<lparr>x = 50, y = 10\<rparr>, \<lparr>x = 90, y = 40\<rparr>]"]
  by (simp add: upt_rec)

text \<open>
  C9. For every point sequence, the spline loop of \<^verbatim>\<open>draw\<close> (lines 53 to 65) and its
  copy in \<^verbatim>\<open>handleKeyDown\<close> (lines 218 to 230) make the same calls: every segment has
  the same control points and the same end point, and so the two paths are equal.
\<close>

theorem finalize_spline_same_as_draw:
  "finalize_segment curve i = draw_segment curve i
   \<and> finalize_spline curve 0 = draw_spline curve 0
   \<and> finalize_path curve = draw_path curve"
  by (simp add: finalize_spline_draw_spline finalize_path_def draw_path_def
      finalize_segment_def draw_segment_def)

subsection \<open>Binary64 rounding\<close>

lemma pow2_pos: "0 < pow2 e"
  by (simp add: pow2_def)

lemma pow2_powr: "pow2 e = 2 powr (of_int e)"
proof (cases "0 \<le> e")
  case True
  then have "2 powr (of_int e) = (2::real) powr (of_nat (nat e))" by simp
  also have "\<dots> = 2 ^ nat e" by (simp only: powr_realpow zero_less_numeral)
  finally show ?thesis using True by (simp add: pow2_def)
next
  case False
  then have "2 powr (of_int e) = (2::real) powr (- of_nat (nat (- e)))" by simp
  also have "\<dots> = 1 / 2 powr (of_nat (nat (- e)))" by (simp only: powr_minus_divide)
  also have "\<dots> = 1 / 2 ^ nat (- e)" by (simp only: powr_realpow zero_less_numeral)
  finally show ?thesis using False by (simp add: pow2_def)
qed

lemma pow2_mono: "e \<le> e' \<Longrightarrow> pow2 e \<le> pow2 e'"
  by (simp add: pow2_powr)

text \<open>The search for the exponent gives the least exponent that fits.\<close>

lemma exponent_from_lower: "e0 \<le> exponent_from a e0 n"
proof (induction n arbitrary: e0)
  case 0
  show ?case by simp
next
  case (Suc n)
  from Suc [of "e0 + 1"] show ?case by simp
qed

lemma exponent_from_le:
  "a < pow2 (e + 1) \<Longrightarrow> e0 \<le> e \<Longrightarrow> exponent_from a e0 n \<le> e"
proof (induction n arbitrary: e0)
  case 0
  then show ?case by simp
next
  case (Suc n)
  show ?case
  proof (cases "a < pow2 (e0 + 1)")
    case True
    with Suc.prems show ?thesis by simp
  next
    case False
    with Suc.prems(1) have "e0 \<noteq> e" by auto
    with Suc.prems(2) have "e0 + 1 \<le> e" by simp
    from Suc.IH [OF Suc.prems(1) this] False show ?thesis by simp
  qed
qed

lemma exponent_from_ge:
  "pow2 e \<le> a \<Longrightarrow> e0 \<le> e \<Longrightarrow> e - e0 \<le> int n \<Longrightarrow> e \<le> exponent_from a e0 n"
proof (induction n arbitrary: e0)
  case 0
  then show ?case by simp
next
  case (Suc n)
  show ?case
  proof (cases "a < pow2 (e0 + 1)")
    case True
    have "e \<le> e0"
    proof (rule ccontr)
      assume "\<not> e \<le> e0"
      then have "pow2 (e0 + 1) \<le> pow2 e" by (intro pow2_mono) simp
      with Suc.prems(1) True show False by simp
    qed
    with True show ?thesis by simp
  next
    case False
    show ?thesis
    proof (cases "e0 = e")
      case True
      with False exponent_from_lower [of "e0 + 1" a n] show ?thesis by simp
    next
      case ne: False
      with Suc.prems have "e0 + 1 \<le> e" "e - (e0 + 1) \<le> int n" by simp_all
      from Suc.IH [OF Suc.prems(1) this] False show ?thesis by simp
    qed
  qed
qed

lemma exponent64_eq:
  assumes "pow2 e \<le> \<bar>r\<bar>" and "\<bar>r\<bar> < pow2 (e + 1)" and "- 1022 \<le> e" and "e \<le> 1023"
  shows "exponent64 r = e"
proof -
  have "exponent64 r \<le> e"
    unfolding exponent64_def using assms(2,3) by (rule exponent_from_le)
  moreover have "e \<le> exponent64 r"
    unfolding exponent64_def using assms(1,3,4) by (intro exponent_from_ge) simp_all
  ultimately show ?thesis by simp
qed

lemma exponent64_le: "\<bar>r\<bar> < pow2 (e + 1) \<Longrightarrow> - 1022 \<le> e \<Longrightarrow> exponent64 r \<le> e"
  unfolding exponent64_def by (rule exponent_from_le)

lemma round_even_of_int: "round_even (of_int m) = m"
  by (simp add: round_even_def)

text \<open>A value on the grid of its exponent rounds to itself.\<close>

lemma round64_exact:
  assumes "r / pow2 (exponent64 r - 52) \<in> \<int>"
  shows "round64 r = r"
proof -
  from assms obtain m where m: "r / pow2 (exponent64 r - 52) = of_int m"
    by (auto elim: Ints_cases)
  have "round64 r = of_int m * pow2 (exponent64 r - 52)"
    by (simp add: round64_def Let_def m round_even_of_int)
  also have "\<dots> = r"
    using m pow2_pos [of "exponent64 r - 52"] by (simp add: field_simps)
  finally show ?thesis .
qed

text \<open>The rounding of a value whose exponent is known.\<close>

lemma round64_eval:
  assumes "pow2 e \<le> \<bar>r\<bar>" and "\<bar>r\<bar> < pow2 (e + 1)" and "- 1022 \<le> e" and "e \<le> 1023"
    and "round_even (r / pow2 (e - 52)) = m"
  shows "round64 r = of_int m * pow2 (e - 52)"
  using assms(5) by (simp add: round64_def Let_def exponent64_eq [OF assms(1-4)])

text \<open>An integer below \<open>2\<^sup>5\<^sup>3\<close> in magnitude is a binary64 number.\<close>

lemma round64_int:
  assumes "r \<in> \<int>" and "\<bar>r\<bar> < 2 ^ 53"
  shows "round64 r = r"
proof (rule round64_exact)
  from assms(1) obtain m where m: "r = of_int m" by (auto elim: Ints_cases)
  have "\<bar>r\<bar> < pow2 (52 + 1)" using assms(2) by (simp add: pow2_def)
  then have le: "exponent64 r \<le> 52" by (rule exponent64_le) simp
  define n where "n = nat (52 - exponent64 r)"
  have "pow2 (exponent64 r - 52) = 1 / 2 ^ n"
  proof (cases "exponent64 r = 52")
    case True
    then show ?thesis by (simp add: pow2_def n_def)
  next
    case False
    with le have "exponent64 r - 52 < 0" by simp
    then show ?thesis by (simp add: pow2_def n_def)
  qed
  then have "r / pow2 (exponent64 r - 52) = of_int (m * 2 ^ n)"
    by (simp add: m)
  then show "r / pow2 (exponent64 r - 52) \<in> \<int>"
    by (simp only: Ints_of_int)
qed

lemma to_number_int:
  assumes "r \<in> \<int>" and "\<bar>r\<bar> < 2 ^ 53"
  shows "to_number r = Finite r"
proof -
  have "round64 r = r" using assms by (rule round64_int)
  moreover have "(2::real) ^ 53 < 2 ^ 1024" by simp
  ultimately show ?thesis using assms(2)
    by (simp add: to_number_def pow2_def abs_less_iff)
qed

text \<open>
  On integer coordinates below \<open>2\<^sup>2\<^sup>5\<close> in magnitude no operation of \<^verbatim>\<open>isNear\<close> rounds,
  and the test is the exact comparison of the squared distance.
\<close>

lemma isNear_int:
  assumes "x pt1 \<in> \<int>" and "y pt1 \<in> \<int>" and "x pt2 \<in> \<int>" and "y pt2 \<in> \<int>" and "d \<in> \<int>"
    and "\<bar>x pt1\<bar> < 2 ^ 25" and "\<bar>y pt1\<bar> < 2 ^ 25" and "\<bar>x pt2\<bar> < 2 ^ 25"
    and "\<bar>y pt2\<bar> < 2 ^ 25" and "\<bar>d\<bar> < 2 ^ 25"
  shows "isNear pt1 pt2 d \<longleftrightarrow> (x pt1 - x pt2)\<^sup>2 + (y pt1 - y pt2)\<^sup>2 \<le> d\<^sup>2"
proof -
  define dx dy where "dx = x pt1 - x pt2" and "dy = y pt1 - y pt2"
  have sq: "a * a \<in> \<int> \<and> \<bar>a * a\<bar> < 2 ^ 52" if "a \<in> \<int>" "\<bar>a\<bar> < 2 ^ 26" for a :: real
  proof -
    have "\<bar>a\<bar> * \<bar>a\<bar> < 2 ^ 26 * 2 ^ 26"
      using that(2) by (intro mult_strict_mono') simp_all
    then have "\<bar>a * a\<bar> < 2 ^ 52" by (simp add: abs_mult)
    with that(1) show ?thesis by simp
  qed
  have dx: "dx \<in> \<int>" "\<bar>dx\<bar> < 2 ^ 26" and dy: "dy \<in> \<int>" "\<bar>dy\<bar> < 2 ^ 26"
    using assms by (simp_all add: dx_def dy_def)
  have d: "d \<in> \<int>" "\<bar>d\<bar> < 2 ^ 26"
    using assms by simp_all
  have sub: "to_number dx = Finite dx" "to_number dy = Finite dy"
    using dx dy by (simp_all add: to_number_int)
  have mul: "to_number (dx * dx) = Finite (dx * dx)" "to_number (dy * dy) = Finite (dy * dy)"
    "to_number (d * d) = Finite (d * d)"
    using sq [OF dx] sq [OF dy] sq [OF d] by (simp_all add: to_number_int)
  have "dx * dx + dy * dy \<in> \<int>" "\<bar>dx * dx + dy * dy\<bar> < 2 ^ 53"
    using sq [OF dx] sq [OF dy] by simp_all
  then have add: "to_number (dx * dx + dy * dy) = Finite (dx * dx + dy * dy)"
    by (rule to_number_int)
  have "isNear pt1 pt2 d \<longleftrightarrow> dx * dx + dy * dy \<le> d * d"
    by (simp add: isNear_def Let_def dx_def [symmetric] dy_def [symmetric] sub mul add)
  then show ?thesis
    by (simp add: dx_def dy_def power2_eq_square)
qed

text \<open>
  At the boundary the rounded sum decides, not the squared distance. For a point at the
  origin and the pointer at \<open>(8, 2\<^sup>-\<^sup>4\<^sup>0)\<close> the sum \<open>64 + 2\<^sup>-\<^sup>8\<^sup>0\<close> rounds to \<open>64\<close>; for the
  pointer at the binary64 numbers nearest to \<open>4.8\<close> and \<open>6.4\<close> the two squares round to
  numbers whose sum again rounds to \<open>64\<close>. Both times the test holds and the squared
  distance is above \<open>64\<close>.
\<close>

lemma isNear_boundary_small_offset:
  "isNear \<lparr>x = 0, y = 0\<rparr> \<lparr>x = 8, y = 1 / 2 ^ 40\<rparr> 8
   \<and> 64 < (0 - 8)\<^sup>2 + (0 - 1 / 2 ^ 40 :: real)\<^sup>2"
proof -
  have dy: "round64 (- (1 / 2 ^ 40)) = - (1 / 2 ^ 40)"
  proof -
    have "round64 (- (1 / 2 ^ 40)) = of_int (- (2 ^ 52)) * pow2 (- 40 - 52)"
      by (rule round64_eval) (simp_all add: pow2_def round_even_def Let_def)
    then show ?thesis by (simp add: pow2_def)
  qed
  have dy2: "round64 (1 / 2 ^ 80) = 1 / 2 ^ 80"
  proof -
    have "round64 (1 / 2 ^ 80) = of_int (2 ^ 52) * pow2 (- 80 - 52)"
      by (rule round64_eval) (simp_all add: pow2_def round_even_def Let_def)
    then show ?thesis by (simp add: pow2_def)
  qed
  have sum: "round64 (64 + 1 / 2 ^ 80) = 64"
  proof -
    have "round64 (64 + 1 / 2 ^ 80) = of_int (2 ^ 52) * pow2 (6 - 52)"
      by (rule round64_eval) (simp_all add: pow2_def round_even_def Let_def)
    then show ?thesis by (simp add: pow2_def)
  qed
  have n1: "to_number (- (1 / 2 ^ 40)) = Finite (- (1 / 2 ^ 40))"
    by (simp only: to_number_def dy Let_def) (simp add: pow2_def)
  have n2: "to_number (1 / 2 ^ 80) = Finite (1 / 2 ^ 80)"
    by (simp only: to_number_def dy2 Let_def) (simp add: pow2_def)
  have n3: "to_number (64 + 1 / 2 ^ 80) = Finite 64"
    by (simp only: to_number_def sum Let_def) (simp add: pow2_def)
  have i: "to_number (- 8) = Finite (- 8)" "to_number 64 = Finite 64"
    by (simp_all add: to_number_int)
  have "num_sub (Finite 0) (Finite 8) = Finite (- 8)"
    using i(1) by simp
  moreover have "num_sub (Finite 0) (Finite (1 / 2 ^ 40)) = Finite (- (1 / 2 ^ 40))"
    using n1 by simp
  moreover have "num_mul (Finite (- 8)) (Finite (- 8)) = Finite 64"
    using i(2) by simp
  moreover have "num_mul (Finite (- (1 / 2 ^ 40))) (Finite (- (1 / 2 ^ 40))) = Finite (1 / 2 ^ 80)"
  proof -
    have "(- (1 / 2 ^ 40)) * (- (1 / 2 ^ 40)) = (1 / 2 ^ 80 :: real)" by simp
    then show ?thesis by (simp only: num_mul.simps n2)
  qed
  moreover have "num_add (Finite 64) (Finite (1 / 2 ^ 80)) = Finite 64"
    by (simp only: num_add.simps n3)
  moreover have "num_mul (Finite 8) (Finite 8) = Finite 64"
    using i(2) by simp
  ultimately have "isNear \<lparr>x = 0, y = 0\<rparr> \<lparr>x = 8, y = 1 / 2 ^ 40\<rparr> 8"
    by (simp only: isNear_def Let_def point.simps num_le.simps)
  then show ?thesis by simp
qed

lemma to_number_eval:
  assumes "pow2 e \<le> \<bar>r\<bar>" and "\<bar>r\<bar> < pow2 (e + 1)" and "- 1022 \<le> e" and "e \<le> 1023"
    and "round_even (r / pow2 (e - 52)) = m"
    and "\<bar>of_int m * pow2 (e - 52)\<bar> < pow2 1024"
  shows "to_number r = Finite (of_int m * pow2 (e - 52))"
  using assms(6) by (simp add: to_number_def Let_def round64_eval [OF assms(1-5)] abs_less_iff)

lemma isNear_boundary_decimal_fractions:
  "isNear \<lparr>x = 0, y = 0\<rparr>
     \<lparr>x = 5404319552844595 / 2 ^ 50, y = 3602879701896397 / 2 ^ 49\<rparr> 8
   \<and> 64 < (0 - 5404319552844595 / 2 ^ 50)\<^sup>2 + (0 - 3602879701896397 / 2 ^ 49 :: real)\<^sup>2"
proof -
  let ?ax = "5404319552844595 / 2 ^ 50 :: real" and ?ay = "3602879701896397 / 2 ^ 49 :: real"
  let ?sx = "3242591731706757 / 2 ^ 47 :: real" and ?sy = "1441151880758559 / 2 ^ 45 :: real"
  have "to_number (0 - ?ax) = Finite (of_int (- 5404319552844595) * pow2 (2 - 52))"
    by (rule to_number_eval) (simp_all add: pow2_def round_even_def Let_def)
  then have dx: "num_sub (Finite 0) (Finite ?ax) = Finite (- ?ax)"
    by (simp add: pow2_def)
  have "to_number (0 - ?ay) = Finite (of_int (- 7205759403792794) * pow2 (2 - 52))"
    by (rule to_number_eval) (simp_all add: pow2_def round_even_def Let_def)
  then have dy: "num_sub (Finite 0) (Finite ?ay) = Finite (- ?ay)"
    by (simp add: pow2_def)
  have "to_number (- ?ax * - ?ax) = Finite (of_int 6485183463413514 * pow2 (4 - 52))"
    by (rule to_number_eval) (simp_all add: pow2_def round_even_def Let_def)
  then have dx2: "num_mul (Finite (- ?ax)) (Finite (- ?ax)) = Finite ?sx"
    by (simp add: pow2_def)
  have "to_number (- ?ay * - ?ay) = Finite (of_int 5764607523034236 * pow2 (5 - 52))"
    by (rule to_number_eval) (simp_all add: pow2_def round_even_def Let_def)
  then have dy2: "num_mul (Finite (- ?ay)) (Finite (- ?ay)) = Finite ?sy"
    by (simp add: pow2_def)
  have "to_number (?sx + ?sy) = Finite (of_int (2 ^ 52) * pow2 (6 - 52))"
    by (rule to_number_eval) (simp_all add: pow2_def round_even_def Let_def)
  then have sum: "num_add (Finite ?sx) (Finite ?sy) = Finite 64"
    by (simp add: pow2_def)
  have d: "num_mul (Finite 8) (Finite 8) = Finite 64"
    by (simp add: to_number_int)
  have near: "isNear \<lparr>x = 0, y = 0\<rparr> \<lparr>x = ?ax, y = ?ay\<rparr> 8"
    by (simp only: isNear_def Let_def point.simps dx dy dx2 dy2 sum d num_le.simps)
  have "(64::real) < ?ax * ?ax + ?ay * ?ay"
    by simp
  then have far: "64 < (0 - ?ax)\<^sup>2 + (0 - ?ay)\<^sup>2"
    by (simp only: power2_eq_square diff_0 minus_mult_minus)
  from near far show ?thesis by (rule conjI)
qed

subsection \<open>The curve-level hit test\<close>








text \<open>
  At the boundary the hit test follows the rounded sum: a committed curve from the origin
  to \<open>(100, 0)\<close> is hit from \<open>(8, 2\<^sup>-\<^sup>4\<^sup>0)\<close>.
\<close>

lemma hitIndex_boundary:
  "hitIndex [[\<lparr>x = 0, y = 0\<rparr>, \<lparr>x = 100, y = 0\<rparr>]] \<lparr>x = 8, y = 1 / 2 ^ 40\<rparr> = 0"
  using isNear_boundary_small_offset by (simp add: hitIndex_def findIndex_def)

subsection \<open>Dragging a point\<close>

lemma js_nth_nat: "js_nth a (int c) = (if c < length a then Some (a ! c) else None)"
  by (simp add: js_nth_def)

text \<open>
  C4. In every state whose selection names a committed curve \<open>c\<close> and whose drag index
  names a point \<open>k\<close> of that curve, a pointer move to \<open>p\<close> returns a state in which
  point \<open>k\<close> of curve \<open>c\<close> is \<open>p\<close>; the number of committed curves, the length of each,
  every other point of every committed curve, the active curve, the selection, the drag
  index and the drawing flag are as before.
\<close>

theorem drag_replaces_one_point:
  assumes "selectedCurveIndex s = Some c" and "dragging s = Some k"
    and "c < length (curves s)" and "k < length (curves s ! c)"
  shows "\<exists>s'. handleMouseMove cv s e = Returns s'
    \<and> curves s' = (curves s)[c := (curves s ! c)[k := getMousePos cv e]]
    \<and> curves s' ! c ! k = getMousePos cv e
    \<and> length (curves s') = length (curves s)
    \<and> (\<forall>i<length (curves s). length (curves s' ! i) = length (curves s ! i))
    \<and> (\<forall>i<length (curves s). \<forall>j<length (curves s ! i).
          i \<noteq> c \<or> j \<noteq> k \<longrightarrow> curves s' ! i ! j = curves s ! i ! j)
    \<and> currentCurve s' = currentCurve s
    \<and> selectedCurveIndex s' = selectedCurveIndex s
    \<and> dragging s' = dragging s
    \<and> drawing s' = drawing s"
proof -
  let ?p = "getMousePos cv e"
  let ?s' = "s\<lparr>mousePos := Some ?p, curves := (curves s)[c := (curves s ! c)[k := ?p]]\<rparr>"
  have res: "handleMouseMove cv s e = Returns ?s'"
    using assms by (simp add: handleMouseMove_def js_nth_nat Let_def)
  have len: "\<forall>i<length (curves s). length (curves ?s' ! i) = length (curves s ! i)"
    using assms by (auto simp: nth_list_update)
  have frame: "\<forall>i<length (curves s). \<forall>j<length (curves s ! i).
      i \<noteq> c \<or> j \<noteq> k \<longrightarrow> curves ?s' ! i ! j = curves s ! i ! j"
    using assms by (auto simp: nth_list_update)
  have hit: "curves ?s' ! c ! k = ?p"
    using assms by simp
  from res len frame hit show ?thesis by simp
qed

theorem drag_replaces_one_point_witness:
  "selectedCurveIndex scenario_C_drag = Some 0 \<and> dragging scenario_C_drag = Some 1
   \<and> 0 < length (curves scenario_C_drag) \<and> 1 < length (curves scenario_C_drag ! 0)
   \<and> handleMouseMove (Some example_canvas) scenario_C_drag \<lparr>clientX = 10, clientY = 40\<rparr> =
       Returns (scenario_C_drag\<lparr>mousePos := Some \<lparr>x = 10, y = 40\<rparr>,
         curves := [[\<lparr>x = 0, y = 0\<rparr>, \<lparr>x = 10, y = 40\<rparr>, \<lparr>x = 20, y = 0\<rparr>]]\<rparr>)"
proof -
  have h: "selectedCurveIndex scenario_C_drag = Some 0" "dragging scenario_C_drag = Some 1"
    "0 < length (curves scenario_C_drag)" "1 < length (curves scenario_C_drag ! 0)"
    by (simp_all add: scenario_C_drag_def scenario_B_def)
  from drag_replaces_one_point [OF h, of "Some example_canvas" "\<lparr>clientX = 10, clientY = 40\<rparr>"] h
  show ?thesis
    by (simp add: handleMouseMove_def js_nth_def Let_def scenario_C_drag_def scenario_B_def
        getMousePos_def example_canvas_def)
qed

subsection \<open>Pointer up\<close>

text \<open>
  There is one pointer position in the state. The guide segment of \<^verbatim>\<open>draw\<close> reads it,
  and a pointer up clears it: the segment is drawn before and not after.
\<close>

theorem pointer_up_clears_preview_position:
  "mousePos preview_state = Some \<lparr>x = 30, y = 30\<rparr>
   \<and> mousePos (handleMouseUp preview_state) = None
   \<and> draw_preview example_props preview_state =
       [BeginPath, MoveTo 10 10, LineTo 30 30, SetStrokeStyle ''#aaa'', SetLineDash [2, 2],
        SetLineWidth 2, Stroke, SetLineDash []]
   \<and> draw_preview example_props (handleMouseUp preview_state) = []"
  by (simp add: handleMouseUp_def preview_state_def draw_preview_def example_props_def)

text \<open>
  C8, as the code has it. In every state, a pointer up clears the drag index and the one
  pointer position of the state, which is the position the guide segment of the drawing
  preview reads, so no guide segment is drawn afterwards; the selection, the committed
  curves, the active curve and the drawing flag are as before.
\<close>

theorem pointer_up_clears_drag_and_pointer:
  "handleMouseUp s = s\<lparr>dragging := None, mousePos := None\<rparr>
   \<and> dragging (handleMouseUp s) = None
   \<and> mousePos (handleMouseUp s) = None
   \<and> draw_preview pr (handleMouseUp s) = []
   \<and> selectedCurveIndex (handleMouseUp s) = selectedCurveIndex s
   \<and> curves (handleMouseUp s) = curves s
   \<and> currentCurve (handleMouseUp s) = currentCurve s
   \<and> drawing (handleMouseUp s) = drawing s"
  by (simp add: handleMouseUp_def draw_preview_def)

subsection \<open>Subscriptions\<close>

lemma dispatch_not_drawing: "\<not> drawing s \<Longrightarrow> dispatch cv s ev = Returns s"
  by (simp add: dispatch_def subscribed_def)

lemma run_not_drawing: "\<not> drawing s \<Longrightarrow> run cv s evs = Returns s"
  by (induction evs) (simp_all add: dispatch_not_drawing)

text \<open>
  C10. The listeners are present only in a render whose \<^verbatim>\<open>drawing\<close> flag is true. In
  every state with \<^verbatim>\<open>drawing\<close> false no event reaches a handler: whatever events
  arrive, the state stays as it is, so no curve is selected, no point is dragged and no
  new curve is started. This is so right after a successful commit.
\<close>

theorem no_event_processed_outside_drawing:
  "(subscribed cv s \<longrightarrow> drawing s)
   \<and> (\<not> drawing s \<longrightarrow> dispatch cv s ev = Returns s \<and> run cv s evs = Returns s)
   \<and> (commits s key \<longrightarrow>
        \<not> drawing (handleKeyDown s key)
        \<and> run cv (handleKeyDown s key) evs = Returns (handleKeyDown s key))"
proof -
  have a: "subscribed cv s \<longrightarrow> drawing s"
    by (simp add: subscribed_def)
  have b: "\<not> drawing s \<longrightarrow> dispatch cv s ev = Returns s \<and> run cv s evs = Returns s"
    by (simp add: dispatch_not_drawing run_not_drawing)
  have c: "\<not> drawing (handleKeyDown s key)
      \<and> run cv (handleKeyDown s key) evs = Returns (handleKeyDown s key)" if "commits s key"
  proof -
    from that have "\<not> drawing (handleKeyDown s key)"
      by (simp add: handleKeyDown_def)
    then show ?thesis by (simp add: run_not_drawing)
  qed
  from a b c show ?thesis by blast
qed

theorem no_event_processed_outside_drawing_witness:
  "\<not> drawing scenario_B
   \<and> run (Some example_canvas) scenario_B
       [MouseDown \<lparr>clientX = 10, clientY = 0\<rparr>, MouseMove \<lparr>clientX = 10, clientY = 40\<rparr>,
        MouseUp, MouseDown \<lparr>clientX = 200, clientY = 100\<rparr>, KeyDown ''Enter'']
       = Returns scenario_B
   \<and> commits scenario_A ''Enter''
   \<and> run (Some example_canvas) (handleKeyDown scenario_A ''Enter'')
       [MouseDown \<lparr>clientX = 10, clientY = 10\<rparr>, MouseMove \<lparr>clientX = 10, clientY = 40\<rparr>,
        MouseUp, MouseDown \<lparr>clientX = 200, clientY = 100\<rparr>, KeyDown ''Enter'']
       = Returns (handleKeyDown scenario_A ''Enter'')"
proof -
  let ?evs = "[MouseDown \<lparr>clientX = 10, clientY = 0\<rparr>, MouseMove \<lparr>clientX = 10, clientY = 40\<rparr>,
        MouseUp, MouseDown \<lparr>clientX = 200, clientY = 100\<rparr>, KeyDown ''Enter'']"
  let ?evs' = "[MouseDown \<lparr>clientX = 10, clientY = 10\<rparr>, MouseMove \<lparr>clientX = 10, clientY = 40\<rparr>,
        MouseUp, MouseDown \<lparr>clientX = 200, clientY = 100\<rparr>, KeyDown ''Enter'']"
  have d: "\<not> drawing scenario_B"
    by (simp add: scenario_B_def)
  have c: "commits scenario_A ''Enter''"
    by (simp add: commits_def scenario_A_def)
  from no_event_processed_outside_drawing [of "Some example_canvas" scenario_B
      "MouseUp" ?evs "''Enter''"]
    no_event_processed_outside_drawing [of "Some example_canvas" scenario_A
      "MouseUp" ?evs' "''Enter''"] d c
  show ?thesis by blast
qed

subsection \<open>The states that the listeners reach\<close>






subsection \<open>Indices that name nothing\<close>



subsection \<open>The selection and the drag index\<close>



subsection \<open>The handlers on states that no run reaches\<close>

text \<open>
  The handlers check no index. On a state made by hand, with a selection that names no
  committed curve, \<^verbatim>\<open>handleMouseDown\<close> throws outside drawing, where it has no listener,
  and the function that \<^verbatim>\<open>handleMouseMove\<close> passes to \<^verbatim>\<open>setCurves\<close> throws when a
  drag index is set.
\<close>

lemma handleMouseDown_throws_iff:
  "(\<exists>err. handleMouseDown cv s e = Throws err) \<longleftrightarrow>
     \<not> drawing s \<and> (\<exists>c. selectedCurveIndex s = Some c \<and> length (curves s) \<le> c)"
  by (auto simp: handleMouseDown_def js_nth_nat Let_def split: option.splits if_splits)

lemma handleMouseMove_render_throws_iff:
  "(\<exists>err. handleMouseMove cv s e = RenderThrows err) \<longleftrightarrow>
     dragging s \<noteq> None \<and> (\<exists>c. selectedCurveIndex s = Some c \<and> length (curves s) \<le> c)"
  by (auto simp: handleMouseMove_def js_nth_nat Let_def split: option.splits if_splits)

lemma handleMouseMove_never_throws: "handleMouseMove cv s e \<noteq> Throws err"
  by (auto simp: handleMouseMove_def Let_def split: option.splits if_splits)

lemma stale_selection_outcomes:
  "handleMouseDown (Some example_canvas) stale_selection \<lparr>clientX = 5, clientY = 5\<rparr>
     = Throws TypeError
   \<and> handleMouseMove (Some example_canvas) stale_selection \<lparr>clientX = 5, clientY = 5\<rparr>
     = RenderThrows TypeError
   \<and> dispatch (Some example_canvas) stale_selection (MouseDown \<lparr>clientX = 5, clientY = 5\<rparr>)
     = Returns stale_selection
   \<and> dispatch (Some example_canvas) stale_selection (MouseMove \<lparr>clientX = 5, clientY = 5\<rparr>)
     = Returns stale_selection"
  by (simp add: handleMouseDown_def handleMouseMove_def stale_selection_def js_nth_def
      dispatch_def subscribed_def)

text \<open>
  With a selection that names a committed curve and a drag index at or past the end of
  that curve, \<^verbatim>\<open>handleMouseMove\<close> writes the pointer position at that index: at the end
  it appends to the curve, past the end it leaves empty slots.
\<close>

lemma handleMouseMove_past_end:
  assumes "selectedCurveIndex s = Some c" and "dragging s = Some k"
    and "c < length (curves s)" and "length (curves s ! c) \<le> k"
  shows "handleMouseMove cv s e =
     (if k = length (curves s ! c)
      then Returns (s\<lparr>mousePos := Some (getMousePos cv e),
                      curves := (curves s)[c := curves s ! c @ [getMousePos cv e]]\<rparr>)
      else Sparse (s\<lparr>mousePos := Some (getMousePos cv e)\<rparr>) c
             (map Some (curves s ! c) @ replicate (k - length (curves s ! c)) None
              @ [Some (getMousePos cv e)]))"
  using assms by (simp add: handleMouseMove_def js_nth_nat Let_def array_assign_def)

text \<open>
  On an array without empty slots the path is the one of \<open>draw_path\<close>. On the array that
  an assignment past the end leaves, the path throws: \<^verbatim>\<open>curve[0]\<close> (line 51) or
  \<^verbatim>\<open>p2\<close> (line 59) is \<^verbatim>\<open>undefined\<close>.
\<close>

lemma slot_dense: "slot (map Some P) i = js_nth P i"
  by (auto simp: slot_def js_nth_def)

lemma draw_segment_sparse_dense:
  assumes "i + 1 < length P"
  shows "draw_segment_sparse (map Some P) i = Inr (draw_segment P i)"
proof -
  from assms have "js_nth P (int i) = Some (P ! i)" "js_nth P (int i + 1) = Some (P ! (i + 1))"
    by (simp_all add: js_nth_def nat_add_distrib)
  then show ?thesis
    by (cases "js_nth P (int i - 1)"; cases "js_nth P (int i + 2)")
      (simp_all add: draw_segment_sparse_def draw_segment_def slot_dense Let_def)
qed

lemma draw_spline_sparse_dense:
  "draw_spline_sparse (map Some P) i = Inr (draw_spline P i)"
proof (induction P i rule: draw_spline.induct)
  case (1 curve i)
  show ?case
  proof (cases "int i < int (length curve) - 1")
    case True
    then have "i + 1 < length curve" by simp
    with True 1 show ?thesis
      by (subst draw_spline_sparse.simps, subst draw_spline.simps)
        (simp add: draw_segment_sparse_dense)
  next
    case False
    then show ?thesis
      by (subst draw_spline_sparse.simps, subst draw_spline.simps) simp
  qed
qed

lemma draw_path_sparse_dense:
  assumes "P \<noteq> []"
  shows "draw_path_sparse (map Some P) = Inr (draw_path P)"
proof -
  from assms have "js_nth P 0 = Some (P ! 0)"
    by (simp add: js_nth_def)
  then show ?thesis
    by (simp add: draw_path_sparse_def draw_path_def draw_spline_sparse_dense slot_dense)
qed

lemma draw_spline_sparse_empty_slot:
  assumes "i \<le> j" and "j + 1 < length c" and "slot c (int j + 1) = None"
  shows "draw_spline_sparse c i = Inl TypeError"
  using assms
proof (induction "j - i" arbitrary: i)
  case 0
  then have "i = j" by simp
  with 0 have "draw_segment_sparse c i = Inl TypeError"
    by (simp add: draw_segment_sparse_def Let_def split: option.splits)
  with 0 \<open>i = j\<close> show ?case
    by (subst draw_spline_sparse.simps) simp
next
  case (Suc n)
  then have "Suc i \<le> j" "n = j - Suc i" by simp_all
  from Suc.hyps(1) [OF this(2,1) Suc.prems(2,3)]
  have rest: "draw_spline_sparse c (i + 1) = Inl TypeError" by simp
  have "int i < int (length c) - 1" using Suc.prems(1,2) by simp
  with rest show ?case
    by (subst draw_spline_sparse.simps) (auto split: sum.splits intro: js_error.exhaust)
qed

lemma draw_path_sparse_past_end:
  assumes "length a < k"
  shows "draw_path_sparse (array_assign a k v) = Inl TypeError"
proof (cases a)
  case Nil
  with assms obtain k' where "k = Suc k'" by (cases k) auto
  with Nil show ?thesis
    by (simp add: draw_path_sparse_def array_assign_def slot_def js_nth_def)
next
  case (Cons p ps)
  let ?c = "array_assign a k v"
  have len: "length ?c = k + 1"
    using assms by (simp add: array_assign_def)
  have "?c ! length a = None"
    using assms by (simp add: array_assign_def nth_append)
  moreover have "int (length a - 1) + 1 = int (length a)"
    using Cons by simp
  ultimately have empty: "slot ?c (int (length a - 1) + 1) = None"
    using assms len by (simp add: slot_def js_nth_def)
  have "draw_spline_sparse ?c 0 = Inl TypeError"
    by (rule draw_spline_sparse_empty_slot [of 0 "length a - 1"])
      (use assms Cons len empty in simp_all)
  then show ?thesis
    by (simp add: draw_path_sparse_def split: option.splits)
qed

text \<open>
  A commit on a state made by hand, drawing with a selection and a drag index: the handler
  sets no drag index, so the one of the state stays.
\<close>

lemma handleKeyDown_keeps_dragging:
  "dragging (handleKeyDown s key) = dragging s"
  by (simp add: handleKeyDown_def)

lemma commit_while_dragging_outcome:
  "commits commit_while_dragging ''Enter''
   \<and> selectedCurveIndex (handleKeyDown commit_while_dragging ''Enter'') = None
   \<and> dragging (handleKeyDown commit_while_dragging ''Enter'') = Some 1"
  by (simp add: handleKeyDown_def commits_def commit_while_dragging_def)

subsection \<open>The scenarios of the specification\<close>

text \<open>
  Scenario A, through the listeners: from the initial state of an active tool, two pointer
  downs place two points, and Enter commits them.
\<close>

lemma scenario_A_run:
  "run (Some example_canvas) (initial example_props)
     [MouseDown \<lparr>clientX = 10, clientY = 10\<rparr>, MouseDown \<lparr>clientX = 50, clientY = 10\<rparr>]
     = Returns scenario_A
   \<and> run (Some example_canvas) (initial example_props)
     [MouseDown \<lparr>clientX = 10, clientY = 10\<rparr>, MouseDown \<lparr>clientX = 50, clientY = 10\<rparr>,
      KeyDown ''Enter'']
     = Returns \<lparr>curves = [[\<lparr>x = 10, y = 10\<rparr>, \<lparr>x = 50, y = 10\<rparr>]], currentCurve = [],
         selectedCurveIndex = None, dragging = None, mousePos = None, drawing = False\<rparr>"
  by (simp add: dispatch_def subscribed_def handle_def handleMouseDown_def handleKeyDown_def
      commits_def initial_def example_props_def example_canvas_def getMousePos_def
      scenario_A_def)

text \<open>
  The handlers on states that are not drawing, which no listener reaches: a pointer down
  away from every curve starts a curve (scenario A), a pointer down on a committed curve
  selects it (scenario B), and a pointer down on a point of the selected curve, a move
  and a pointer up drag that point (scenario C).
\<close>

lemma scenario_A_first_point:
  "handleMouseDown (Some example_canvas)
     \<lparr>curves = [], currentCurve = [], selectedCurveIndex = None, dragging = None,
      mousePos = None, drawing = False\<rparr> \<lparr>clientX = 10, clientY = 10\<rparr>
   = Returns scenario_D"
  by (simp add: handleMouseDown_def select_or_start_def hitIndex_def findIndex_def
      getMousePos_def example_canvas_def scenario_D_def)

lemma scenario_B_select:
  "handleMouseDown (Some example_canvas) scenario_B \<lparr>clientX = 10, clientY = 0\<rparr>
     = Returns scenario_C"
  by (simp add: handleMouseDown_def select_or_start_def hitIndex_def findIndex_def isNear_int
      getMousePos_def example_canvas_def scenario_B_def scenario_C_def)

lemma scenario_C_drag_and_release:
  "handleMouseDown (Some example_canvas) scenario_C \<lparr>clientX = 10, clientY = 2\<rparr>
     = Returns scenario_C_drag
   \<and> handleMouseMove (Some example_canvas) scenario_C_drag \<lparr>clientX = 10, clientY = 40\<rparr>
     = Returns (scenario_C_drag\<lparr>mousePos := Some \<lparr>x = 10, y = 40\<rparr>,
         curves := [[\<lparr>x = 0, y = 0\<rparr>, \<lparr>x = 10, y = 40\<rparr>, \<lparr>x = 20, y = 0\<rparr>]]\<rparr>)
   \<and> handleMouseUp (scenario_C_drag\<lparr>mousePos := Some \<lparr>x = 10, y = 40\<rparr>,
         curves := [[\<lparr>x = 0, y = 0\<rparr>, \<lparr>x = 10, y = 40\<rparr>, \<lparr>x = 20, y = 0\<rparr>]]\<rparr>)
     = scenario_C\<lparr>curves := [[\<lparr>x = 0, y = 0\<rparr>, \<lparr>x = 10, y = 40\<rparr>, \<lparr>x = 20, y = 0\<rparr>]]\<rparr>"
  by (simp add: handleMouseDown_def handleMouseMove_def handleMouseUp_def js_nth_def
      point_hit.simps isNear_int Let_def getMousePos_def example_canvas_def
      scenario_B_def scenario_C_def scenario_C_drag_def)

text \<open>The state with a pointer position of the section on pointer up arises while drawing.\<close>

lemma preview_state_reached:
  "run (Some example_canvas) (initial example_props)
     [MouseDown \<lparr>clientX = 10, clientY = 10\<rparr>, MouseUp, MouseMove \<lparr>clientX = 30, clientY = 30\<rparr>]
     = Returns preview_state"
  by (simp add: dispatch_def subscribed_def handle_def handleMouseDown_def handleMouseMove_def
      handleMouseUp_def initial_def example_props_def example_canvas_def getMousePos_def
      preview_state_def)

text \<open>
  The redraw inside \<^verbatim>\<open>handleKeyDown\<close> puts the new curve into its list twice (lines
  204 to 207), so it strokes the same path twice.
\<close>

lemma commit_strokes_new_curve_twice:
  assumes "commits s key" and "has_ctx c"
  shows "handleKeyDown_canvas (Some c) pr s key =
     ClearRect 0 0 (width c) (height c)
     # concat (map (finalize_curve (Some c) pr) (curves s))
     @ finalize_curve (Some c) pr (currentCurve s)
     @ finalize_curve (Some c) pr (currentCurve s)"
  using assms by (simp add: handleKeyDown_canvas_def commits_def)

end
